theory Spec2Isabelle
  imports Complex_Main "HOL-Library.Multiset"
begin

section \<open>Python values\<close>

text \<open>
  A Python \<open>float\<close> is modelled as a \<open>real\<close>: the finite values, with exact arithmetic
  (no rounding, no NaN, no infinities). Where a property depends on the rounding itself,
  as the boundary values of the face component do, the double-precision evaluation is
  modelled beside the exact one. \<open>Optional[str]\<close> is \<open>string option\<close>.
  Truthiness of an optional string, as \<open>if x:\<close> and \<open>x or y\<close> test it: \<open>None\<close> and the
  empty string are false.
\<close>

definition truthy :: "string option \<Rightarrow> bool" where
  "truthy v = (case v of None \<Rightarrow> False | Some s \<Rightarrow> s \<noteq> [])"

text \<open>\<open>a or b\<close> on optional strings: \<open>a\<close> when it is truthy, otherwise \<open>b\<close> whatever it is.\<close>

definition py_or :: "string option \<Rightarrow> string option \<Rightarrow> string option" where
  "py_or a b = (if truthy a then a else b)"

text \<open>\<open>x or 0.0\<close> on an optional float: \<open>None\<close> and \<open>0.0\<close> are false.\<close>

definition or_zero :: "real option \<Rightarrow> real" where
  "or_zero v = (case v of None \<Rightarrow> 0 | Some x \<Rightarrow> if x = 0 then 0 else x)"

datatype py_exception =
  ConnectionError | Timeout | HTTPError nat | JSONDecodeError | ValueError

section \<open>config.py\<close>

record Settings =
  FACE_PASS_THRESHOLD :: real
  LIVENESS_PASS_THRESHOLD :: real
  OPEN_SANCTIONS_API_KEY :: "string option"
  SANCTIONS_TOPK :: int
  SANCTIONS_FLAG_THRESHOLD :: real

text \<open>The settings when no environment variable is set.\<close>

definition default_settings :: Settings where
  "default_settings =
     \<lparr>FACE_PASS_THRESHOLD = 0.35, LIVENESS_PASS_THRESHOLD = 0.35,
      OPEN_SANCTIONS_API_KEY = None, SANCTIONS_TOPK = 5,
      SANCTIONS_FLAG_THRESHOLD = 0.85\<rparr>"

section \<open>schemas.py and the parsed fields of services/ocr.py\<close>

text \<open>
  \<open>ParsedFields\<close> (services/ocr.py) and \<open>ExtractedFields\<close> (schemas.py) have the same
  six optional fields; \<open>ExtractedFields\<close> adds \<open>source\<close>.
\<close>

record ParsedFields =
  full_name :: "string option"
  dob :: "string option"
  document_number :: "string option"
  nationality :: "string option"
  expiry_date :: "string option"
  address :: "string option"

record ExtractedFields = ParsedFields +
  source :: string

record Scores =
  face_match :: real
  liveness :: real
  ocr_confidence :: real
  sanctions_match :: real
  overall :: real

record SanctionsMatch =
  match_id :: "string option"
  name :: "string option"
  country :: "string option"
  dataset :: "string option"
  schema :: "string option"
  score :: "real option"
  link :: "string option"

record KycResult =
  extracted :: ExtractedFields
  scores :: Scores
  sanctions_matches :: "SanctionsMatch list"
  passed :: bool
  reason :: string

section \<open>services/sanctions.py\<close>

text \<open>The JSON the match API answers with: one object per candidate.\<close>

record Entity =
  entity_name :: "string option"
  entity_country :: "string option"
  entity_schema :: "string option"

record ApiResult =
  res_id :: "string option"
  res_name :: "string option"
  res_entity :: "Entity option"
  res_dataset :: "string option"
  res_score :: "real option"
  res_target :: "string option option"

text \<open>
  \<open>res_entity\<close> is \<open>None\<close> when the key is missing, null or an empty object;
  \<open>res_target\<close> is \<open>None\<close> when the target is missing or empty, and otherwise holds
  the target's optional \<open>url\<close>.
\<close>

record JsonData =
  results :: "ApiResult list option"

record Response =
  status_code :: nat
  json_body :: "JsonData option"

record Query =
  q_name :: string
  q_birthDate :: "string option"

record Payload =
  p_query :: Query
  p_size :: int

record HttpRequest =
  req_url :: string
  req_headers :: "(string \<times> string) list"
  req_json :: Payload
  req_timeout :: nat

type_synonym poster = "HttpRequest \<Rightarrow> py_exception + Response"

text \<open>Lines 13-28 of \<open>query_opensanctions\<close>: the request that is posted.\<close>

definition build_request ::
  "string \<Rightarrow> string option \<Rightarrow> string option \<Rightarrow> int \<Rightarrow> HttpRequest" where
  "build_request nm birth_date api_key top_k =
     \<lparr>req_url = ''https://api.opensanctions.org/match'',
      req_headers =
        (''Accept'', ''application/json'') #
        (case api_key of
           None \<Rightarrow> []
         | Some k \<Rightarrow> if k \<noteq> [] then [(''Authorization'', ''ApiKey '' @ k)] else []),
      req_json =
        \<lparr>p_query = \<lparr>q_name = nm,
                     q_birthDate = (if truthy birth_date then birth_date else None)\<rparr>,
         p_size = top_k\<rparr>,
      req_timeout = 20\<rparr>"

text \<open>\<open>resp.raise_for_status()\<close>: an HTTPError for a 4xx or 5xx status.\<close>

definition raise_for_status :: "Response \<Rightarrow> py_exception + unit" where
  "raise_for_status resp =
     (if 400 \<le> status_code resp \<and> status_code resp < 600
      then Inl (HTTPError (status_code resp)) else Inr ())"

text \<open>Lines 35-43: the unified structure built from one candidate.\<close>

definition unified :: "ApiResult \<Rightarrow> SanctionsMatch" where
  "unified res =
     \<lparr>match_id = res_id res,
      name = py_or (res_name res)
               (case res_entity res of None \<Rightarrow> None | Some e \<Rightarrow> entity_name e),
      country = (case res_entity res of None \<Rightarrow> None | Some e \<Rightarrow> entity_country e),
      dataset = res_dataset res,
      schema = (case res_entity res of None \<Rightarrow> None | Some e \<Rightarrow> entity_schema e),
      score = res_score res,
      link = (case res_target res of None \<Rightarrow> None | Some u \<Rightarrow> u)\<rparr>"

text \<open>The sort key of line 47, \<open>m.score or 0.0\<close>.\<close>

definition sort_score :: "SanctionsMatch \<Rightarrow> real" where
  "sort_score m = or_zero (score m)"

text \<open>
  \<open>list.sort(key=k, reverse=True)\<close>: CPython reverses the list, sorts it stably in
  ascending order of the key, and reverses the result, which keeps elements with equal
  keys in their original order. The stable ascending sort is \<open>sort_key\<close>.
\<close>

definition sort_reverse :: "('a \<Rightarrow> real) \<Rightarrow> 'a list \<Rightarrow> 'a list" where
  "sort_reverse k xs = rev (sort_key k (rev xs))"

text \<open>Lines 32-48: the loop over the candidates and the sort.\<close>

definition collect_results :: "ApiResult list \<Rightarrow> SanctionsMatch list" where
  "collect_results rs = sort_reverse sort_score (map unified rs)"

text \<open>
  \<open>query_opensanctions\<close>. The first component is the list of requests posted to the
  service; the second is the raised exception or the returned list.
\<close>

definition query_opensanctions ::
  "poster \<Rightarrow> string \<Rightarrow> string option \<Rightarrow> string option \<Rightarrow> int \<Rightarrow>
     HttpRequest list \<times> (py_exception + SanctionsMatch list)" where
  "query_opensanctions post nm birth_date api_key top_k =
     (let rq = build_request nm birth_date api_key top_k in
      ([rq],
       case post rq of
         Inl e \<Rightarrow> Inl e
       | Inr resp \<Rightarrow>
           (case raise_for_status resp of
              Inl e \<Rightarrow> Inl e
            | Inr _ \<Rightarrow>
                (case json_body resp of
                   None \<Rightarrow> Inl JSONDecodeError
                 | Some data \<Rightarrow>
                     Inr (collect_results
                            (case results data of None \<Rightarrow> [] | Some rs \<Rightarrow> rs))))))"

section \<open>services/face.py\<close>

definition norm2 :: "real list \<Rightarrow> real" where
  "norm2 v = sqrt (sum_list (map (\<lambda>x. x * x) v))"

definition dot :: "real list \<Rightarrow> real list \<Rightarrow> real" where
  "dot a b = sum_list (map2 (*) a b)"

text \<open>
  \<open>detect_and_embed\<close>, from line 63 on. The argument is what the detector and the
  recogniser gave: \<open>None\<close> when no face was detected, otherwise the feature vector of
  the largest face.
\<close>

definition detect_and_embed :: "real list option \<Rightarrow> real list option" where
  "detect_and_embed faces =
     (case faces of
        None \<Rightarrow> None
      | Some feat \<Rightarrow>
          (let norm = norm2 feat in
           if norm < 1 / 10 ^ 9 then None
           else Some (map (\<lambda>x. x / (norm + 1 / 10 ^ 9)) feat)))"

text \<open>\<open>cosine_similarity\<close>; \<open>np.dot\<close> raises a ValueError on vectors of different sizes.\<close>

definition cosine_similarity ::
  "real list option \<Rightarrow> real list option \<Rightarrow> py_exception + real" where
  "cosine_similarity a b =
     (case (a, b) of
        (Some u, Some v) \<Rightarrow>
          (let denom = norm2 u * norm2 v + 1 / 10 ^ 9 in
           if length u \<noteq> length v then Inl ValueError else Inr (dot u v / denom))
      | _ \<Rightarrow> Inr 0)"

section \<open>services/liveness.py\<close>

text \<open>
  What OpenCV and NumPy measured on the selfie: the variance of the Laplacian, the mean
  of the saturation channel, and the sums of the spectrum's magnitude over the central
  window and over the whole image.
\<close>

record ImageStats =
  fm :: real
  sat_mean_raw :: real
  central_sum :: real
  total_sum :: real

definition liveness_heuristics :: "ImageStats \<Rightarrow> real" where
  "liveness_heuristics st =
     (let sharp = min 1 (fm st / 150);
          sat_mean = sat_mean_raw st / 255;
          central = central_sum st + 1 / 10 ^ 6;
          total = total_sum st + 1 / 10 ^ 6;
          hf_ratio = 1 - central / total;
          moire_penalty = min 1 (hf_ratio * 1.5);
          sc = 0.6 * sharp + 0.3 * sat_mean - 0.3 * moire_penalty
      in max 0 (min 1 sc))"

section \<open>The OCR confidence of services/ocr.py\<close>

text \<open>
  Per image, \<open>conf_vals\<close> is the list of the word confidences that are digit strings
  (so they are non-negative integers); an image without any adds nothing to \<open>confs\<close>.
\<close>

definition image_conf :: "nat list \<Rightarrow> real option" where
  "image_conf conf_vals =
     (if conf_vals = [] then None
      else Some (max 0 (min 100 (real (sum_list conf_vals) / real (length conf_vals)))
                 / 100))"

fun py_max :: "real list \<Rightarrow> real" where
  "py_max [] = 0"
| "py_max [x] = x"
| "py_max (x # xs) = max x (py_max xs)"

text \<open>
  The argument has one entry per image that is not \<open>None\<close> (front, then back).
  \<open>py_max\<close> is only called on a non-empty list, as \<open>max(confs) if confs else 0.4\<close> is.
\<close>

definition ocr_conf_of :: "nat list list \<Rightarrow> real" where
  "ocr_conf_of imgs =
     (let confs = List.map_filter image_conf imgs in
      if confs \<noteq> [] then py_max confs else 0.4)"

section \<open>main.py: the verification endpoint\<close>

datatype HTTPException = HTTPException nat string

text \<open>
  One verification request, with what the external collaborators gave for it:
  whether decoding an upload raised, the MRZ and OCR records, the OCR word confidences,
  the recogniser's features for both images, the selfie's measurements, and the two
  optional form fields.
\<close>

record VerifyRequest =
  upload_error :: "string option"
  mrz_fields :: ParsedFields
  ocr_fields :: ParsedFields
  ocr_conf_vals :: "nat list list"
  id_front_faces :: "real list option"
  selfie_faces :: "real list option"
  selfie_stats :: ImageStats
  form_full_name :: "string option"
  form_dob :: "string option"

text \<open>Lines 80-88.\<close>

definition merge_fields ::
  "ParsedFields \<Rightarrow> ParsedFields \<Rightarrow> string option \<Rightarrow> string option \<Rightarrow> ExtractedFields" where
  "merge_fields mrz ocr fname fdob =
     \<lparr>full_name = py_or (py_or (full_name mrz) (full_name ocr)) fname,
      dob = py_or (py_or (dob mrz) (dob ocr)) fdob,
      document_number = py_or (document_number mrz) (document_number ocr),
      nationality = py_or (nationality mrz) (nationality ocr),
      expiry_date = py_or (expiry_date mrz) (expiry_date ocr),
      address = address ocr,
      source = (if truthy (document_number mrz) then ''mrz'' else ''ocr'')\<rparr>"

text \<open>Lines 107-125: what the screening step leaves in the three local variables.\<close>

record Screening =
  matches :: "SanctionsMatch list"
  sanctions_score :: real
  sanctions_flag :: bool

definition no_screening :: Screening where
  "no_screening = \<lparr>matches = [], sanctions_score = 0, sanctions_flag = False\<rparr>"

definition screen ::
  "Settings \<Rightarrow> poster \<Rightarrow> ExtractedFields \<Rightarrow> HttpRequest list \<times> Screening" where
  "screen settings post ex =
     (case full_name ex of
        None \<Rightarrow> ([], no_screening)
      | Some nm \<Rightarrow>
          if nm = [] then ([], no_screening)
          else
            (case query_opensanctions post nm (dob ex)
                    (OPEN_SANCTIONS_API_KEY settings) 5 of
               (sent, Inl e) \<Rightarrow> (sent, no_screening)
             | (sent, Inr ms) \<Rightarrow>
                 (case ms of
                    [] \<Rightarrow> (sent, \<lparr>matches = [], sanctions_score = 0, sanctions_flag = False\<rparr>)
                  | top_match # _ \<Rightarrow>
                      (sent,
                       \<lparr>matches = ms,
                        sanctions_score = or_zero (score top_match),
                        sanctions_flag =
                          (or_zero (score top_match) \<ge> SANCTIONS_FLAG_THRESHOLD settings)\<rparr>))))"

text \<open>Lines 128-131: the four components.\<close>

definition face_component :: "Settings \<Rightarrow> real \<Rightarrow> real" where
  "face_component settings face_match_score =
     max 0 (min 1 ((face_match_score - FACE_PASS_THRESHOLD settings + 0.2) / 0.2))"

definition live_component :: "real \<Rightarrow> real" where
  "live_component live_score = max 0 (min 1 live_score)"

definition ocr_component :: "real \<Rightarrow> real" where
  "ocr_component ocr_conf = max 0 (min 1 ocr_conf)"

definition sanctions_component :: "real \<Rightarrow> real" where
  "sanctions_component s = max 0 (min 1 (1 - s))"

text \<open>Lines 128-158: risk aggregation, decision and the result.\<close>

definition decide ::
  "Settings \<Rightarrow> ExtractedFields \<Rightarrow> real \<Rightarrow> real \<Rightarrow> real \<Rightarrow> Screening \<Rightarrow> KycResult" where
  "decide settings ex face_match_score live_score ocr_conf sc =
     (let ov = 0.55 * face_component settings face_match_score
               + 0.20 * live_component live_score
               + 0.15 * ocr_component ocr_conf
               + 0.10 * sanctions_component (sanctions_score sc);
          ok = (face_match_score \<ge> FACE_PASS_THRESHOLD settings
                \<and> live_score \<ge> LIVENESS_PASS_THRESHOLD settings
                \<and> \<not> sanctions_flag sc)
      in \<lparr>extracted = ex,
          scores = \<lparr>face_match = face_match_score, liveness = live_score,
                    ocr_confidence = ocr_conf,
                    sanctions_match = sanctions_score sc, overall = ov\<rparr>,
          sanctions_matches = matches sc,
          passed = ok,
          reason =
            (if sanctions_flag sc then ''sanctions_flag''
             else if face_match_score < FACE_PASS_THRESHOLD settings then ''low_face_match''
             else if live_score < LIVENESS_PASS_THRESHOLD settings then ''low_liveness''
             else ''ok'')\<rparr>)"

text \<open>
  Lines 90-101: both embeddings and the face match score, or the exception raised.
  An exception of \<open>np.dot\<close> is not caught and reaches the handler of line 47, which
  answers with status 500.
\<close>

definition face_step :: "VerifyRequest \<Rightarrow> HTTPException + real" where
  "face_step rq =
     (case detect_and_embed (id_front_faces rq) of
        None \<Rightarrow> Inl (HTTPException 422 ''Could not detect a face on the ID image.'')
      | Some id_face_embed \<Rightarrow>
          (case detect_and_embed (selfie_faces rq) of
             None \<Rightarrow> Inl (HTTPException 422 ''Could not detect a face on the selfie image.'')
           | Some selfie_embed \<Rightarrow>
               (case cosine_similarity (Some id_face_embed) (Some selfie_embed) of
                  Inl e \<Rightarrow> Inl (HTTPException 500 ''Internal Server Error'')
                | Inr s \<Rightarrow> Inr s)))"

text \<open>
  \<open>kyc_verify\<close>: the requests posted to the sanctions service, and the exception
  raised or the result returned.
\<close>

definition kyc_verify ::
  "Settings \<Rightarrow> poster \<Rightarrow> VerifyRequest \<Rightarrow> HttpRequest list \<times> (HTTPException + KycResult)" where
  "kyc_verify settings post rq =
     (case upload_error rq of
        Some e \<Rightarrow> ([], Inl (HTTPException 400 (''Invalid image upload: '' @ e)))
      | None \<Rightarrow>
          (let ocr_conf = ocr_conf_of (ocr_conf_vals rq);
               ex = merge_fields (mrz_fields rq) (ocr_fields rq)
                      (form_full_name rq) (form_dob rq)
           in case face_step rq of
                Inl err \<Rightarrow> ([], Inl err)
              | Inr face_match_score \<Rightarrow>
                  (let live_score = liveness_heuristics (selfie_stats rq);
                       (sent, sc) = screen settings post ex
                   in (sent, Inr (decide settings ex face_match_score live_score
                                    ocr_conf sc)))))"

section \<open>Double precision\<close>

text \<open>
  Rounding a real number to the nearest integer, a tie going to the even one.
\<close>

definition round_half_even :: "real \<Rightarrow> int" where
  "round_half_even x =
     (let n = \<lfloor>x\<rfloor>; r = x - of_int n in
      if r < 1 / 2 then n
      else if 1 / 2 < r then n + 1
      else if even n then n else n + 1)"

text \<open>
  The binary exponent of a positive number: the \<open>e\<close> with \<open>2^e \<le> x < 2^(e+1)\<close>, found
  by halving a number that is at least 1 and doubling one that is below 1.
\<close>

function expo_ge :: "real \<Rightarrow> int" where
  "expo_ge x = (if x < 2 then 0 else expo_ge (x / 2) + 1)"
  by pat_completeness auto
termination
proof (relation "measure (\<lambda>x. nat \<lceil>x\<rceil>)")
  show "wf (measure (\<lambda>x::real. nat \<lceil>x\<rceil>))"
    by simp
next
  fix x :: real
  assume "\<not> x < 2"
  then have "\<lceil>x / 2\<rceil> < \<lceil>x\<rceil>" and "0 < \<lceil>x\<rceil>"
    by linarith+
  then show "(x / 2, x) \<in> measure (\<lambda>x. nat \<lceil>x\<rceil>)"
    by simp
qed

function expo_lt :: "real \<Rightarrow> int" where
  "expo_lt x = (if x \<le> 0 \<or> 1 \<le> x then 0 else expo_lt (2 * x) - 1)"
  by pat_completeness auto
termination
proof (relation "measure (\<lambda>x. nat \<lceil>1 / x\<rceil>)")
  show "wf (measure (\<lambda>x::real. nat \<lceil>1 / x\<rceil>))"
    by simp
next
  fix x :: real
  assume "\<not> (x \<le> 0 \<or> 1 \<le> x)"
  then have x: "0 < x" "x < 1"
    by simp_all
  then have y: "1 < 1 / x"
    by simp
  have h: "1 / (2 * x) = (1 / x) / 2"
    by simp
  have "\<lceil>y / 2\<rceil> < \<lceil>y\<rceil> \<and> 0 < \<lceil>y\<rceil>" if "1 < y" for y :: real
  proof -
    have "1 < \<lceil>y\<rceil>"
      using that by simp
    then have c: "2 \<le> real_of_int \<lceil>y\<rceil>"
      by linarith
    have "y \<le> real_of_int \<lceil>y\<rceil>"
      by (rule le_of_int_ceiling)
    moreover have "y / 2 \<le> a - 1" if "2 \<le> a" "y \<le> a" for a :: real
      using that by linarith
    ultimately have "y / 2 \<le> real_of_int \<lceil>y\<rceil> - 1"
      using c by blast
    then have "y / 2 \<le> real_of_int (\<lceil>y\<rceil> - 1)"
      by (simp only: of_int_diff of_int_1)
    then have "\<lceil>y / 2\<rceil> \<le> \<lceil>y\<rceil> - 1"
      by (simp only: ceiling_le_iff)
    then show ?thesis
      using \<open>1 < \<lceil>y\<rceil>\<close> by linarith
  qed
  from this [OF y] have "0 < \<lceil>1 / x\<rceil> \<and> \<lceil>(1 / x) / 2\<rceil> < \<lceil>1 / x\<rceil>"
    by blast
  then have "nat \<lceil>1 / (2 * x)\<rceil> < nat \<lceil>1 / x\<rceil>"
    by (simp only: h zless_nat_conj)
  then show "(2 * x, x) \<in> measure (\<lambda>x. nat \<lceil>1 / x\<rceil>)"
    by (simp only: in_measure)
qed

declare expo_ge.simps [simp del] expo_lt.simps [simp del]

definition expo :: "real \<Rightarrow> int" where
  "expo x = (if 1 \<le> x then expo_ge x else expo_lt x)"

text \<open>
  The exponent of the spacing of the doubles around \<open>x\<close>: 53 significant bits in the
  normal range, and the fixed spacing \<open>2^-1074\<close> of the subnormal range.
\<close>

definition ulp_exp :: "real \<Rightarrow> int" where
  "ulp_exp x = max (expo x - 52) (- 1074)"

text \<open>
  \<open>fl64 x\<close> is the double nearest to \<open>x\<close>, a tie going to the even significand, as
  every arithmetic operation of IEEE 754 binary64 and the reading of a decimal literal
  round. Rounding is symmetric in the sign. The exponent is not bounded above: where a
  double operation overflows to an infinity, \<open>fl64\<close> gives a finite value of magnitude
  at least \<open>2^1024\<close>, and the clamp of line 128 takes both to the same bound, so that
  for finite scores and thresholds the component below is the one the code computes.
\<close>

definition round_pos :: "real \<Rightarrow> real" where
  "round_pos x = of_int (round_half_even (x / 2 powi ulp_exp x)) * 2 powi ulp_exp x"

definition fl64 :: "real \<Rightarrow> real" where
  "fl64 x = (if x < 0 then - round_pos (- x) else round_pos x)"

text \<open>
  The double that the literal \<open>0.2\<close> denotes (\<open>0x1.999999999999ap-3\<close>).
\<close>

definition one_fifth :: real where
  "one_fifth = 3602879701896397 / 2 ^ 54"

text \<open>
  Line 128 of main.py in double precision: the subtraction, the addition and the
  division are rounded one after the other, and so is the literal \<open>0.2\<close>.
\<close>

definition face_component_double :: "Settings \<Rightarrow> real \<Rightarrow> real" where
  "face_component_double settings face_match_score =
     max 0 (min 1 (fl64 (fl64 (fl64 (face_match_score - FACE_PASS_THRESHOLD settings)
                                  + fl64 0.2) / fl64 0.2)))"

section \<open>The specification's own formulas\<close>

text \<open>\<open>clamp(x, lo, hi)\<close> as the specification writes it.\<close>

definition spec_clamp :: "real \<Rightarrow> real \<Rightarrow> real \<Rightarrow> real" where
  "spec_clamp x lo hi = (if x < lo then lo else if hi < x then hi else x)"

text \<open>
  The weighted sum of section 4.5 of the specification, from the face match score, the
  liveness score, the OCR confidence, the best sanctions score and the face threshold.
\<close>

definition spec_overall :: "real \<Rightarrow> real \<Rightarrow> real \<Rightarrow> real \<Rightarrow> real \<Rightarrow> real" where
  "spec_overall threshold f l oc s =
     0.55 * spec_clamp ((f - threshold + 0.2) / 0.2) 0 1
     + 0.20 * spec_clamp l 0 1
     + 0.15 * spec_clamp oc 0 1
     + 0.10 * spec_clamp (1 - s) 0 1"

text \<open>"First non-empty wins": the first value of the list that is present and not empty.\<close>

definition first_nonempty :: "string option list \<Rightarrow> string option option" where
  "first_nonempty vs = find truthy vs"

text \<open>
  A merged field takes the first non-empty value of its sources; when no source has
  one, the field is absent or empty.
\<close>

definition takes_first_nonempty :: "string option \<Rightarrow> string option list \<Rightarrow> bool" where
  "takes_first_nonempty v vs =
     (case first_nonempty vs of Some w \<Rightarrow> v = w | None \<Rightarrow> \<not> truthy v)"

section \<open>Concrete services, settings and requests\<close>

definition post_unreachable :: poster where
  "post_unreachable rq = Inl ConnectionError"

definition post_clean :: poster where
  "post_clean rq = Inr \<lparr>status_code = 200, json_body = Some \<lparr>results = Some []\<rparr>\<rparr>"

definition listed_candidate :: ApiResult where
  "listed_candidate =
     \<lparr>res_id = Some ''NK-1'', res_name = Some ''John Doe'', res_entity = None,
      res_dataset = Some ''sanctions'', res_score = Some 0.95, res_target = None\<rparr>"

definition post_listed :: poster where
  "post_listed rq =
     Inr \<lparr>status_code = 200, json_body = Some \<lparr>results = Some [listed_candidate]\<rparr>\<rparr>"

definition no_fields :: ParsedFields where
  "no_fields = \<lparr>full_name = None, dob = None, document_number = None,
                 nationality = None, expiry_date = None, address = None\<rparr>"

text \<open>
  A request whose two faces have the same feature vector, whose selfie is sharp and
  saturated, and whose MRZ gives a name and a document number.
\<close>

definition sample_request :: VerifyRequest where
  "sample_request =
     \<lparr>upload_error = None,
      mrz_fields = \<lparr>full_name = Some ''John Doe'', dob = None,
                    document_number = Some ''AB123456'', nationality = None,
                    expiry_date = None, address = None\<rparr>,
      ocr_fields = no_fields,
      ocr_conf_vals = [[80]],
      id_front_faces = Some [1],
      selfie_faces = Some [1],
      selfie_stats = \<lparr>fm = 150, sat_mean_raw = 255, central_sum = 1, total_sum = 1\<rparr>,
      form_full_name = None, form_dob = None\<rparr>"

definition sample_extracted :: ExtractedFields where
  "sample_extracted =
     \<lparr>full_name = Some ''John Doe'', dob = None, document_number = Some ''AB123456'',
      nationality = None, expiry_date = None, address = None, source = ''mrz''\<rparr>"

definition sample_query :: HttpRequest where
  "sample_query =
     \<lparr>req_url = ''https://api.opensanctions.org/match'',
      req_headers = [(''Accept'', ''application/json'')],
      req_json = \<lparr>p_query = \<lparr>q_name = ''John Doe'', q_birthDate = None\<rparr>, p_size = 5\<rparr>,
      req_timeout = 20\<rparr>"

text \<open>The face match score of \<open>sample_request\<close>: just below 1, for the two epsilons.\<close>

definition sample_face_match :: real where
  "sample_face_match = 1000000000000000000000000000 / 1000000001000000002000000001"

text \<open>What the endpoint answers to \<open>sample_request\<close> when the candidate is listed.\<close>

definition listed_result :: KycResult where
  "listed_result =
     \<lparr>extracted = sample_extracted,
      scores = \<lparr>face_match = sample_face_match, liveness = 0.9, ocr_confidence = 0.8,
                sanctions_match = 0.95, overall = 0.855\<rparr>,
      sanctions_matches =
        [\<lparr>match_id = Some ''NK-1'', name = Some ''John Doe'', country = None,
          dataset = Some ''sanctions'', schema = None, score = Some 0.95, link = None\<rparr>],
      passed = False, reason = ''sanctions_flag''\<rparr>"

text \<open>What it answers when no candidate is found, or when the service cannot be reached.\<close>

definition clean_result :: KycResult where
  "clean_result =
     \<lparr>extracted = sample_extracted,
      scores = \<lparr>face_match = sample_face_match, liveness = 0.9, ocr_confidence = 0.8,
                sanctions_match = 0, overall = 0.95\<rparr>,
      sanctions_matches = [], passed = True, reason = ''ok''\<rparr>"

text \<open>A sanctions flag threshold of zero: any candidate at all is to be flagged.\<close>

definition flag_any_settings :: Settings where
  "flag_any_settings = default_settings\<lparr>SANCTIONS_FLAG_THRESHOLD := 0\<rparr>"

text \<open>The same request with two orthogonal feature vectors: the faces do not match.\<close>

definition mismatch_request :: VerifyRequest where
  "mismatch_request = sample_request\<lparr>id_front_faces := Some [1, 0], selfie_faces := Some [0, 1]\<rparr>"

definition mismatch_listed_result :: KycResult where
  "mismatch_listed_result =
     \<lparr>extracted = sample_extracted,
      scores = \<lparr>face_match = 0, liveness = 0.9, ocr_confidence = 0.8,
                sanctions_match = 0.95, overall = 0.305\<rparr>,
      sanctions_matches =
        [\<lparr>match_id = Some ''NK-1'', name = Some ''John Doe'', country = None,
          dataset = Some ''sanctions'', schema = None, score = Some 0.95, link = None\<rparr>],
      passed = False, reason = ''sanctions_flag''\<rparr>"

text \<open>The environment sets \<open>SANCTIONS_TOPK=10\<close>.\<close>

definition topk10_settings :: Settings where
  "topk10_settings = default_settings\<lparr>SANCTIONS_TOPK := 10\<rparr>"

text \<open>The sample request without any name: the MRZ gave nothing either.\<close>

definition anonymous_request :: VerifyRequest where
  "anonymous_request = sample_request\<lparr>mrz_fields := no_fields\<rparr>"

definition anonymous_result :: KycResult where
  "anonymous_result =
     \<lparr>extracted = \<lparr>full_name = None, dob = None, document_number = None,
                   nationality = None, expiry_date = None, address = None, source = ''ocr''\<rparr>,
      scores = \<lparr>face_match = sample_face_match, liveness = 0.9, ocr_confidence = 0.8,
                sanctions_match = 0, overall = 0.95\<rparr>,
      sanctions_matches = [], passed = True, reason = ''ok''\<rparr>"

text \<open>A candidate that has only an id and an optional score.\<close>

definition candidate :: "string \<Rightarrow> real option \<Rightarrow> ApiResult" where
  "candidate i s =
     \<lparr>res_id = Some i, res_name = None, res_entity = None,
      res_dataset = None, res_score = s, res_target = None\<rparr>"

text \<open>Five candidates as the service lists them, and the order the sort gives them.\<close>

definition five_candidates :: "ApiResult list" where
  "five_candidates =
     [candidate ''a'' (Some 0.5), candidate ''b'' None, candidate ''c'' (Some 0.9),
      candidate ''d'' (Some 0.5), candidate ''e'' (Some 0)]"

definition five_sorted :: "SanctionsMatch list" where
  "five_sorted =
     map unified
       [candidate ''c'' (Some 0.9), candidate ''a'' (Some 0.5), candidate ''d'' (Some 0.5),
        candidate ''b'' None, candidate ''e'' (Some 0)]"

definition post_five :: poster where
  "post_five rq = Inr \<lparr>status_code = 200, json_body = Some \<lparr>results = Some five_candidates\<rparr>\<rparr>"

text \<open>The sample request with opposite feature vectors on the two images.\<close>

definition opposite_request :: VerifyRequest where
  "opposite_request = sample_request\<lparr>selfie_faces := Some [- 1]\<rparr>"

definition opposite_result :: KycResult where
  "opposite_result =
     \<lparr>extracted = sample_extracted,
      scores = \<lparr>face_match = - sample_face_match, liveness = 0.9, ocr_confidence = 0.8,
                sanctions_match = 0, overall = 0.4\<rparr>,
      sanctions_matches = [], passed = False, reason = ''low_face_match''\<rparr>"

text \<open>The environment sets \<open>FACE_PASS_THRESHOLD=0.95\<close>: the threshold is the double of 0.95.\<close>

definition threshold_095_settings :: Settings where
  "threshold_095_settings = default_settings\<lparr>FACE_PASS_THRESHOLD := fl64 0.95\<rparr>"

section \<open>Unfolding the model\<close>

lemmas model_defs =
  kyc_verify_def face_step_def detect_and_embed_def cosine_similarity_def norm2_def dot_def
  liveness_heuristics_def ocr_conf_of_def image_conf_def merge_fields_def py_or_def truthy_def
  screen_def query_opensanctions_def build_request_def raise_for_status_def
  collect_results_def sort_reverse_def unified_def sort_score_def or_zero_def
  no_screening_def decide_def face_component_def live_component_def ocr_component_def
  sanctions_component_def Let_def

lemmas sample_defs =
  default_settings_def flag_any_settings_def post_unreachable_def post_clean_def
  post_listed_def listed_candidate_def sample_request_def no_fields_def
  sample_extracted_def sample_query_def sample_face_match_def listed_result_def
  clean_result_def

text \<open>A returned result is the decision on the outcome of the earlier steps.\<close>

lemma kyc_verify_Inr:
  assumes "kyc_verify settings post rq = (sent, Inr r)"
  shows "upload_error rq = None \<and>
         (\<exists>fm. face_step rq = Inr fm \<and>
            sent = fst (screen settings post
                          (merge_fields (mrz_fields rq) (ocr_fields rq)
                             (form_full_name rq) (form_dob rq))) \<and>
            r = decide settings
                  (merge_fields (mrz_fields rq) (ocr_fields rq)
                     (form_full_name rq) (form_dob rq))
                  fm (liveness_heuristics (selfie_stats rq))
                  (ocr_conf_of (ocr_conf_vals rq))
                  (snd (screen settings post
                          (merge_fields (mrz_fields rq) (ocr_fields rq)
                             (form_full_name rq) (form_dob rq)))))"
  using assms
  by (auto simp: kyc_verify_def Let_def split: option.splits sum.splits prod.splits)

lemma screen_flag_iff:
  "sanctions_flag (snd (screen settings post ex)) \<longleftrightarrow>
     matches (snd (screen settings post ex)) \<noteq> [] \<and>
     sanctions_score (snd (screen settings post ex)) \<ge> SANCTIONS_FLAG_THRESHOLD settings"
  by (auto simp: screen_def no_screening_def
           split: option.splits sum.splits prod.splits list.splits)

lemma screen_no_matches:
  "matches (snd (screen settings post ex)) = [] \<Longrightarrow>
     sanctions_score (snd (screen settings post ex)) = 0"
  by (auto simp: screen_def no_screening_def
           split: option.splits sum.splits prod.splits list.splits)

lemma decide_simps:
  "extracted (decide settings ex f l oc sc) = ex"
  "face_match (scores (decide settings ex f l oc sc)) = f"
  "liveness (scores (decide settings ex f l oc sc)) = l"
  "ocr_confidence (scores (decide settings ex f l oc sc)) = oc"
  "sanctions_match (scores (decide settings ex f l oc sc)) = sanctions_score sc"
  "sanctions_matches (decide settings ex f l oc sc) = matches sc"
  "passed (decide settings ex f l oc sc) \<longleftrightarrow>
     f \<ge> FACE_PASS_THRESHOLD settings \<and> l \<ge> LIVENESS_PASS_THRESHOLD settings \<and>
     \<not> sanctions_flag sc"
  by (simp_all add: decide_def Let_def)

text \<open>The three runs of \<open>sample_request\<close> under the default settings.\<close>

lemma sample_listed_run:
  "kyc_verify default_settings post_listed sample_request = ([sample_query], Inr listed_result)"
  by (simp add: model_defs sample_defs)

lemma sample_clean_run:
  "kyc_verify default_settings post_clean sample_request = ([sample_query], Inr clean_result)"
  by (simp add: model_defs sample_defs)

lemma sample_unreachable_run:
  "kyc_verify default_settings post_unreachable sample_request
     = ([sample_query], Inr clean_result)"
  by (simp add: model_defs sample_defs)

lemma sample_flag_any_run:
  "kyc_verify flag_any_settings post_clean sample_request = ([sample_query], Inr clean_result)"
  by (simp add: model_defs sample_defs)

section \<open>The decision\<close>

text \<open>
  Claim C1, as the code has it. Whenever the endpoint returns a result, the stored face
  match and liveness scores are the raw ones, and \<open>passed\<close> holds exactly when the raw
  face match score reaches the face threshold, the raw liveness score reaches the
  liveness threshold, and the sanctions flag is not set, where the flag is set exactly
  when the screening returned at least one candidate and the best sanctions score
  reaches the flag threshold. For a positive flag threshold this is the same as the best
  sanctions score reaching the threshold. Neither the components nor the overall score
  occur in the condition.
\<close>

theorem passed_iff_raw_gates:
  assumes "kyc_verify settings post rq = (sent, Inr r)"
  shows "face_step rq = Inr (face_match (scores r)) \<and>
         liveness (scores r) = liveness_heuristics (selfie_stats rq) \<and>
         (passed r \<longleftrightarrow>
            face_match (scores r) \<ge> FACE_PASS_THRESHOLD settings \<and>
            liveness (scores r) \<ge> LIVENESS_PASS_THRESHOLD settings \<and>
            \<not> (sanctions_matches r \<noteq> [] \<and>
               sanctions_match (scores r) \<ge> SANCTIONS_FLAG_THRESHOLD settings)) \<and>
         (0 < SANCTIONS_FLAG_THRESHOLD settings \<longrightarrow>
            (passed r \<longleftrightarrow>
               face_match (scores r) \<ge> FACE_PASS_THRESHOLD settings \<and>
               liveness (scores r) \<ge> LIVENESS_PASS_THRESHOLD settings \<and>
               \<not> sanctions_match (scores r) \<ge> SANCTIONS_FLAG_THRESHOLD settings))"
proof -
  let ?ex = "merge_fields (mrz_fields rq) (ocr_fields rq) (form_full_name rq) (form_dob rq)"
  let ?sc = "snd (screen settings post ?ex)"
  from kyc_verify_Inr [OF assms] obtain fm where
    fs: "face_step rq = Inr fm" and
    r: "r = decide settings ?ex fm (liveness_heuristics (selfie_stats rq))
              (ocr_conf_of (ocr_conf_vals rq)) ?sc"
    by blast
  have flag: "sanctions_flag ?sc \<longleftrightarrow>
                matches ?sc \<noteq> [] \<and> sanctions_score ?sc \<ge> SANCTIONS_FLAG_THRESHOLD settings"
    by (rule screen_flag_iff)
  have zero: "matches ?sc = [] \<Longrightarrow> sanctions_score ?sc = 0"
    by (rule screen_no_matches)
  show ?thesis
    using fs flag zero by (auto simp: r decide_simps)
qed

text \<open>
  The theorem at \<open>sample_request\<close> with a listed candidate: the default flag threshold
  is positive, both biometric gates are open, and the flag alone makes \<open>passed\<close> false.
\<close>

theorem passed_iff_raw_gates_witness:
  "kyc_verify default_settings post_listed sample_request = ([sample_query], Inr listed_result) \<and>
   0 < SANCTIONS_FLAG_THRESHOLD default_settings \<and>
   face_step sample_request = Inr (face_match (scores listed_result)) \<and>
   face_match (scores listed_result) \<ge> FACE_PASS_THRESHOLD default_settings \<and>
   liveness (scores listed_result) \<ge> LIVENESS_PASS_THRESHOLD default_settings \<and>
   sanctions_match (scores listed_result) \<ge> SANCTIONS_FLAG_THRESHOLD default_settings \<and>
   \<not> passed listed_result"
  using passed_iff_raw_gates [OF sample_listed_run] sample_listed_run
  by (simp add: sample_defs)

text \<open>
  Claim C1 as stated fails when the flag threshold is not positive. With a threshold of
  zero and a screening that finds nobody, the best sanctions score is 0 and reaches the
  threshold, yet the flag is not set and the request passes.
\<close>

theorem passed_zero_threshold_counterexample:
  "kyc_verify flag_any_settings post_clean sample_request = ([sample_query], Inr clean_result) \<and>
   \<not> (passed clean_result \<longleftrightarrow>
        face_match (scores clean_result) \<ge> FACE_PASS_THRESHOLD flag_any_settings \<and>
        liveness (scores clean_result) \<ge> LIVENESS_PASS_THRESHOLD flag_any_settings \<and>
        \<not> sanctions_match (scores clean_result) \<ge> SANCTIONS_FLAG_THRESHOLD flag_any_settings)"
  using sample_flag_any_run by (simp add: sample_defs)

section \<open>Reason code and degraded screening\<close>

lemma mismatch_listed_run:
  "kyc_verify default_settings post_listed mismatch_request
     = ([sample_query], Inr mismatch_listed_result)"
  by (simp add: model_defs sample_defs mismatch_request_def mismatch_listed_result_def)

text \<open>
  Claim C2. Whenever the endpoint returns a result, the reason is the first that applies
  of: \<open>sanctions_flag\<close> when the sanctions flag of the screening step is set,
  \<open>low_face_match\<close> when the face match score is below the face threshold,
  \<open>low_liveness\<close> when the liveness score is below the liveness threshold, and
  \<open>ok\<close>. The flag is set exactly when there is a candidate and the best score
  reaches the flag threshold. With the flag set and a low face match at once, the reason
  is \<open>sanctions_flag\<close>.
\<close>

theorem reason_first_match:
  assumes "kyc_verify settings post rq = (sent, Inr r)"
  shows "reason r =
           (if sanctions_flag (snd (screen settings post (extracted r))) then ''sanctions_flag''
            else if face_match (scores r) < FACE_PASS_THRESHOLD settings then ''low_face_match''
            else if liveness (scores r) < LIVENESS_PASS_THRESHOLD settings then ''low_liveness''
            else ''ok'') \<and>
         (sanctions_flag (snd (screen settings post (extracted r))) \<longleftrightarrow>
            sanctions_matches r \<noteq> [] \<and>
            sanctions_match (scores r) \<ge> SANCTIONS_FLAG_THRESHOLD settings) \<and>
         (sanctions_flag (snd (screen settings post (extracted r))) \<and>
          face_match (scores r) < FACE_PASS_THRESHOLD settings \<longrightarrow>
            reason r = ''sanctions_flag'')"
proof -
  let ?ex = "merge_fields (mrz_fields rq) (ocr_fields rq) (form_full_name rq) (form_dob rq)"
  let ?sc = "snd (screen settings post ?ex)"
  from kyc_verify_Inr [OF assms] obtain fm where
    r: "r = decide settings ?ex fm (liveness_heuristics (selfie_stats rq))
              (ocr_conf_of (ocr_conf_vals rq)) ?sc"
    by blast
  have ex: "extracted r = ?ex"
    by (simp add: r decide_simps)
  have flag: "sanctions_flag ?sc \<longleftrightarrow>
                matches ?sc \<noteq> [] \<and> sanctions_score ?sc \<ge> SANCTIONS_FLAG_THRESHOLD settings"
    by (rule screen_flag_iff)
  have rs: "reason r =
           (if sanctions_flag ?sc then ''sanctions_flag''
            else if fm < FACE_PASS_THRESHOLD settings then ''low_face_match''
            else if liveness_heuristics (selfie_stats rq) < LIVENESS_PASS_THRESHOLD settings
              then ''low_liveness''
            else ''ok'')"
    by (simp add: r decide_def Let_def)
  show ?thesis
    unfolding ex using flag rs by (simp add: r decide_simps)
qed

text \<open>
  The theorem at a request whose faces do not match (score 0, below 0.35) and whose
  candidate is listed with score 0.95: the reason is \<open>sanctions_flag\<close>.
\<close>

theorem reason_first_match_witness:
  "kyc_verify default_settings post_listed mismatch_request
     = ([sample_query], Inr mismatch_listed_result) \<and>
   sanctions_flag (snd (screen default_settings post_listed (extracted mismatch_listed_result))) \<and>
   face_match (scores mismatch_listed_result) < FACE_PASS_THRESHOLD default_settings \<and>
   reason mismatch_listed_result = ''sanctions_flag''"
  using reason_first_match [OF mismatch_listed_run] mismatch_listed_run
  by (simp add: sample_defs mismatch_listed_result_def)

text \<open>
  Claim C3. Take a request whose uploads decode and whose faces are found, so that the
  screening step is reached with a name, and let the screening call raise (the post
  itself, the status check or the decoding of the body). Then the endpoint returns a
  result and not an exception: its list of matches is empty, its sanctions score is 0,
  the flag is not set, and \<open>passed\<close> is the conjunction of the face gate and the
  liveness gate alone.
\<close>

theorem screening_failure_is_absorbed:
  assumes "upload_error rq = None"
    and "face_step rq = Inr face_score"
    and "full_name (merge_fields (mrz_fields rq) (ocr_fields rq)
                      (form_full_name rq) (form_dob rq)) = Some nm"
    and "nm \<noteq> []"
    and "snd (query_opensanctions post nm
                (dob (merge_fields (mrz_fields rq) (ocr_fields rq)
                        (form_full_name rq) (form_dob rq)))
                (OPEN_SANCTIONS_API_KEY settings) 5) = Inl e"
  shows "\<exists>sent r. kyc_verify settings post rq = (sent, Inr r) \<and>
           sanctions_matches r = [] \<and>
           sanctions_match (scores r) = 0 \<and>
           \<not> sanctions_flag (snd (screen settings post (extracted r))) \<and>
           reason r \<noteq> ''sanctions_flag'' \<and>
           (passed r \<longleftrightarrow>
              face_score \<ge> FACE_PASS_THRESHOLD settings \<and>
              liveness_heuristics (selfie_stats rq) \<ge> LIVENESS_PASS_THRESHOLD settings)"
proof -
  let ?ex = "merge_fields (mrz_fields rq) (ocr_fields rq) (form_full_name rq) (form_dob rq)"
  obtain sent where q: "query_opensanctions post nm (dob ?ex)
                          (OPEN_SANCTIONS_API_KEY settings) 5 = (sent, Inl e)"
    using assms(5) by (cases "query_opensanctions post nm (dob ?ex)
                          (OPEN_SANCTIONS_API_KEY settings) 5") simp
  have sc: "screen settings post ?ex = (sent, no_screening)"
    using assms(3,4) q by (simp add: screen_def)
  have k: "kyc_verify settings post rq
             = (sent, Inr (decide settings ?ex face_score (liveness_heuristics (selfie_stats rq))
                             (ocr_conf_of (ocr_conf_vals rq)) no_screening))"
    using assms(1,2) sc by (simp add: kyc_verify_def Let_def)
  have "sanctions_matches (decide settings ?ex face_score (liveness_heuristics (selfie_stats rq))
                             (ocr_conf_of (ocr_conf_vals rq)) no_screening) = []"
    by (simp add: decide_simps no_screening_def)
  moreover have "reason (decide settings ?ex face_score (liveness_heuristics (selfie_stats rq))
                             (ocr_conf_of (ocr_conf_vals rq)) no_screening) \<noteq> ''sanctions_flag''"
    by (simp add: decide_def Let_def no_screening_def)
  ultimately show ?thesis
    using k sc by (simp add: decide_simps no_screening_def)
qed

text \<open>
  The theorem at \<open>sample_request\<close> with a service that cannot be reached.
\<close>

theorem screening_failure_is_absorbed_witness:
  "upload_error sample_request = None \<and>
   face_step sample_request = Inr sample_face_match \<and>
   full_name (merge_fields (mrz_fields sample_request) (ocr_fields sample_request)
                (form_full_name sample_request) (form_dob sample_request)) = Some ''John Doe'' \<and>
   snd (query_opensanctions post_unreachable ''John Doe''
          (dob (merge_fields (mrz_fields sample_request) (ocr_fields sample_request)
                  (form_full_name sample_request) (form_dob sample_request)))
          (OPEN_SANCTIONS_API_KEY default_settings) 5) = Inl ConnectionError \<and>
   (\<exists>sent r. kyc_verify default_settings post_unreachable sample_request = (sent, Inr r) \<and>
      sanctions_matches r = [] \<and> sanctions_match (scores r) = 0 \<and> passed r)"
proof -
  have 1: "upload_error sample_request = None"
    by (simp add: sample_defs)
  have 2: "face_step sample_request = Inr sample_face_match"
    by (simp add: model_defs sample_defs)
  have 3: "full_name (merge_fields (mrz_fields sample_request) (ocr_fields sample_request)
                (form_full_name sample_request) (form_dob sample_request)) = Some ''John Doe''"
    by (simp add: model_defs sample_defs)
  have 4: "''John Doe'' \<noteq> []"
    by simp
  have 5: "snd (query_opensanctions post_unreachable ''John Doe''
          (dob (merge_fields (mrz_fields sample_request) (ocr_fields sample_request)
                  (form_full_name sample_request) (form_dob sample_request)))
          (OPEN_SANCTIONS_API_KEY default_settings) 5) = Inl ConnectionError"
    by (simp add: model_defs sample_defs)
  have 6: "sample_face_match \<ge> FACE_PASS_THRESHOLD default_settings"
    by (simp add: sample_defs)
  have 7: "liveness_heuristics (selfie_stats sample_request)
             \<ge> LIVENESS_PASS_THRESHOLD default_settings"
    by (simp add: model_defs sample_defs)
  from screening_failure_is_absorbed [OF 1 2 3 4 5] 6 7
  show ?thesis
    using 1 2 3 5 by blast
qed

section \<open>The overall score\<close>

text \<open>
  The clamps of lines 128-131 are the specification's clamp to the unit interval.
\<close>

lemma clamp_max_min: "max 0 (min 1 x) = spec_clamp x 0 1"
  by (simp add: spec_clamp_def max_def min_def)

lemma spec_clamp_range: "0 \<le> spec_clamp x 0 1 \<and> spec_clamp x 0 1 \<le> 1"
  by (simp add: spec_clamp_def)

lemma spec_overall_range:
  "0 \<le> spec_overall t f l oc s \<and> spec_overall t f l oc s \<le> 1"
proof -
  have a: "0 \<le> spec_clamp ((f - t + 0.2) / 0.2) 0 1 \<and> spec_clamp ((f - t + 0.2) / 0.2) 0 1 \<le> 1"
    by (rule spec_clamp_range)
  have b: "0 \<le> spec_clamp l 0 1 \<and> spec_clamp l 0 1 \<le> 1"
    by (rule spec_clamp_range)
  have c: "0 \<le> spec_clamp oc 0 1 \<and> spec_clamp oc 0 1 \<le> 1"
    by (rule spec_clamp_range)
  have d: "0 \<le> spec_clamp (1 - s) 0 1 \<and> spec_clamp (1 - s) 0 1 \<le> 1"
    by (rule spec_clamp_range)
  have "0 \<le> 0.55 * x + 0.20 * y + 0.15 * z + 0.10 * w \<and>
        0.55 * x + 0.20 * y + 0.15 * z + 0.10 * w \<le> 1"
    if "0 \<le> x \<and> x \<le> 1" "0 \<le> y \<and> y \<le> 1" "0 \<le> z \<and> z \<le> 1" "0 \<le> w \<and> w \<le> 1"
    for x y z w :: real
    using that by simp
  from this [OF a b c d] show ?thesis
    unfolding spec_overall_def .
qed

lemma decide_overall:
  "overall (scores (decide settings ex f l oc sc))
     = spec_overall (FACE_PASS_THRESHOLD settings) f l oc (sanctions_score sc)"
  by (simp add: decide_def Let_def face_component_def live_component_def ocr_component_def
        sanctions_component_def clamp_max_min spec_overall_def)

text \<open>
  Claim C4. For every face match score, liveness score, OCR confidence and screening
  outcome, and for every configuration, the overall score computed by the decision is
  the weighted sum of the specification, with weights 0.55, 0.20, 0.15 and 0.10 on the
  four components clamped to the unit interval, and it lies between 0 and 1. The same
  holds of every result the endpoint returns, in terms of the scores it reports.
\<close>

theorem overall_is_weighted_sum:
  "overall (scores (decide settings ex f l oc sc))
     = spec_overall (FACE_PASS_THRESHOLD settings) f l oc (sanctions_score sc) \<and>
   0 \<le> overall (scores (decide settings ex f l oc sc)) \<and>
   overall (scores (decide settings ex f l oc sc)) \<le> 1 \<and>
   (kyc_verify settings post rq = (sent, Inr r) \<longrightarrow>
      overall (scores r)
        = spec_overall (FACE_PASS_THRESHOLD settings) (face_match (scores r))
            (liveness (scores r)) (ocr_confidence (scores r)) (sanctions_match (scores r)) \<and>
      0 \<le> overall (scores r) \<and> overall (scores r) \<le> 1)"
proof -
  have "overall (scores r)
        = spec_overall (FACE_PASS_THRESHOLD settings) (face_match (scores r))
            (liveness (scores r)) (ocr_confidence (scores r)) (sanctions_match (scores r))"
    if "kyc_verify settings post rq = (sent, Inr r)"
  proof -
    from kyc_verify_Inr [OF that] obtain fm ex l oc sc where
      r: "r = decide settings ex fm l oc sc"
      by blast
    show ?thesis
      by (simp add: r decide_overall decide_simps)
  qed
  then show ?thesis
    using spec_overall_range by (simp add: decide_overall)
qed

text \<open>
  The theorem at \<open>sample_request\<close> with no candidate found: the overall score is 0.95.
\<close>

theorem overall_is_weighted_sum_witness:
  "kyc_verify default_settings post_clean sample_request = ([sample_query], Inr clean_result) \<and>
   overall (scores clean_result) = spec_overall 0.35 sample_face_match 0.9 0.8 0 \<and>
   overall (scores clean_result) = 0.95"
  using overall_is_weighted_sum [of default_settings sample_extracted 0 0 0 no_screening
          post_clean sample_request "[sample_query]" clean_result]
        sample_clean_run
  by (simp add: sample_defs)

section \<open>The face component in double precision\<close>

text \<open>
  Rounding to the nearest double is monotone: within one binade it is the rounding of
  the significand, and between two binades a power of two separates the results.
\<close>

lemma round_half_even_floor: "\<lfloor>x\<rfloor> \<le> round_half_even x \<and> round_half_even x \<le> \<lfloor>x\<rfloor> + 1"
  by (simp add: round_half_even_def Let_def)

lemma round_half_even_mono: "x \<le> y \<Longrightarrow> round_half_even x \<le> round_half_even y"
proof -
  assume xy: "x \<le> y"
  show ?thesis
  proof (cases "\<lfloor>x\<rfloor> < \<lfloor>y\<rfloor>")
    case True
    then show ?thesis
      using round_half_even_floor [of x] round_half_even_floor [of y] by linarith
  next
    case False
    then have e: "\<lfloor>y\<rfloor> = \<lfloor>x\<rfloor>"
      using xy floor_mono [of x y] by linarith
    have "x - of_int \<lfloor>x\<rfloor> \<le> y - of_int \<lfloor>x\<rfloor>"
      using xy by simp
    then show ?thesis
      unfolding round_half_even_def Let_def e by (simp split: if_splits) 
  qed
qed

lemma round_half_even_of_int [simp]: "round_half_even (of_int k) = k"
  by (simp add: round_half_even_def)


lemma expo_ge_bounds:
  "1 \<le> x \<Longrightarrow> 2 powi expo_ge x \<le> x \<and> x < 2 powi (expo_ge x + 1)"
proof (induction x rule: expo_ge.induct)
  case (1 x)
  show ?case
  proof (cases "x < 2")
    case True
    then have "expo_ge x = 0"
      by (simp add: expo_ge.simps [of x])
    then show ?thesis
      using True "1.prems" by simp
  next
    case False
    then have "2 powi expo_ge (x / 2) \<le> x / 2 \<and> x / 2 < 2 powi (expo_ge (x / 2) + 1)"
      using "1.IH" by simp
    moreover have "expo_ge x = expo_ge (x / 2) + 1"
      using False by (simp add: expo_ge.simps [of x])
    ultimately show ?thesis
      by (simp add: power_int_add)
  qed
qed

lemma expo_lt_bounds:
  "0 < x \<Longrightarrow> x < 2 \<Longrightarrow> 2 powi expo_lt x \<le> x \<and> x < 2 powi (expo_lt x + 1)"
proof (induction x rule: expo_lt.induct)
  case (1 x)
  show ?case
  proof (cases "1 \<le> x")
    case True
    then have "expo_lt x = 0"
      by (simp add: expo_lt.simps [of x])
    then show ?thesis
      using True "1.prems" by simp
  next
    case False
    then have "2 powi expo_lt (2 * x) \<le> 2 * x \<and> 2 * x < 2 powi (expo_lt (2 * x) + 1)"
      using "1.IH" "1.prems" by simp
    moreover have "expo_lt x = expo_lt (2 * x) - 1"
      using False "1.prems" by (simp add: expo_lt.simps [of x])
    ultimately show ?thesis
      by (simp add: power_int_add power_int_diff)
  qed
qed

lemma expo_bounds:
  "0 < x \<Longrightarrow> 2 powi expo x \<le> x \<and> x < 2 powi (expo x + 1)"
  using expo_ge_bounds [of x] expo_lt_bounds [of x] by (simp add: expo_def)

lemma expo_mono:
  assumes "0 < x" "x \<le> y"
  shows "expo x \<le> expo y"
proof -
  have "2 powi expo x \<le> x"
    using expo_bounds [of x] assms by simp
  moreover have "y < 2 powi (expo y + 1)"
    using expo_bounds [of y] assms by simp
  ultimately have lt: "(2::real) powi expo x < 2 powi (expo y + 1)"
    using assms by linarith
  show ?thesis
  proof (rule ccontr)
    assume "\<not> expo x \<le> expo y"
    then have "expo y + 1 \<le> expo x"
      by simp
    then have "(2::real) powi (expo y + 1) \<le> 2 powi expo x"
      by (rule power_int_increasing) simp
    with lt show False
      by linarith
  qed
qed


lemma ulp_exp_mono: "0 < x \<Longrightarrow> x \<le> y \<Longrightarrow> ulp_exp x \<le> ulp_exp y"
  using expo_mono [of x y] by (simp add: ulp_exp_def)

lemma pow2_split:
  assumes "q \<le> k"
  shows "(2::real) powi k = of_int (2 ^ nat (k - q)) * 2 powi q"
proof -
  have "(2::real) powi k = 2 powi (k - q) * 2 powi q"
    by (simp flip: power_int_add)
  also have "(2::real) powi (k - q) = of_int (2 ^ nat (k - q))"
    using assms by (simp add: power_int_nonneg_exp)
  finally show ?thesis .
qed

lemma round_pos_le_pow:
  assumes "x \<le> 2 powi k" "ulp_exp x \<le> k"
  shows "round_pos x \<le> 2 powi k"
proof -
  let ?q = "ulp_exp x"
  have k: "(2::real) powi k = of_int (2 ^ nat (k - ?q)) * 2 powi ?q"
    using assms(2) by (rule pow2_split)
  have "x / 2 powi ?q \<le> 2 powi k / 2 powi ?q"
    using assms(1) by (simp add: divide_right_mono)
  also have "\<dots> = of_int (2 ^ nat (k - ?q))"
    by (subst k) simp
  finally have "round_half_even (x / 2 powi ?q) \<le> round_half_even (of_int (2 ^ nat (k - ?q)))"
    by (rule round_half_even_mono)
  then have "round_half_even (x / 2 powi ?q) \<le> 2 ^ nat (k - ?q)"
    by (simp only: round_half_even_of_int)
  then have "real_of_int (round_half_even (x / 2 powi ?q)) \<le> of_int (2 ^ nat (k - ?q))"
    by (simp only: of_int_le_iff)
  then have "real_of_int (round_half_even (x / 2 powi ?q)) * 2 powi ?q
               \<le> of_int (2 ^ nat (k - ?q)) * 2 powi ?q"
    by (rule mult_right_mono) simp
  then show ?thesis
    unfolding round_pos_def using k by simp
qed

lemma round_pos_ge_pow:
  assumes "2 powi k \<le> x" "ulp_exp x \<le> k"
  shows "2 powi k \<le> round_pos x"
proof -
  let ?q = "ulp_exp x"
  have k: "(2::real) powi k = of_int (2 ^ nat (k - ?q)) * 2 powi ?q"
    using assms(2) by (rule pow2_split)
  have "2 powi k / 2 powi ?q \<le> x / 2 powi ?q"
    using assms(1) by (simp add: divide_right_mono)
  moreover have "2 powi k / 2 powi ?q = real_of_int (2 ^ nat (k - ?q))"
    by (subst k) simp
  ultimately have "real_of_int (2 ^ nat (k - ?q)) \<le> x / 2 powi ?q"
    by simp
  then have "round_half_even (of_int (2 ^ nat (k - ?q))) \<le> round_half_even (x / 2 powi ?q)"
    by (rule round_half_even_mono)
  then have "2 ^ nat (k - ?q) \<le> round_half_even (x / 2 powi ?q)"
    by (simp only: round_half_even_of_int)
  then have "real_of_int (2 ^ nat (k - ?q)) \<le> of_int (round_half_even (x / 2 powi ?q))"
    by (simp only: of_int_le_iff)
  then have "of_int (2 ^ nat (k - ?q)) * 2 powi ?q
               \<le> real_of_int (round_half_even (x / 2 powi ?q)) * 2 powi ?q"
    by (rule mult_right_mono) simp
  then show ?thesis
    unfolding round_pos_def using k by simp
qed

lemma round_pos_zero: "round_pos 0 = 0"
  using round_half_even_of_int [of 0] by (simp add: round_pos_def)

lemma round_pos_nonneg:
  assumes "0 \<le> x"
  shows "0 \<le> round_pos x"
proof -
  have "0 \<le> x / 2 powi ulp_exp x"
    using assms by simp
  then have "round_half_even (of_int 0) \<le> round_half_even (x / 2 powi ulp_exp x)"
    by (intro round_half_even_mono) simp
  then have "0 \<le> round_half_even (x / 2 powi ulp_exp x)"
    by (simp only: round_half_even_of_int)
  then show ?thesis
    by (simp add: round_pos_def)
qed

lemma round_pos_mono:
  assumes "0 \<le> x" "x \<le> y"
  shows "round_pos x \<le> round_pos y"
proof (cases "x = 0")
  case True
  then show ?thesis
    using assms round_pos_nonneg [of y] by (simp add: round_pos_zero)
next
  case False
  then have x: "0 < x"
    using assms by simp
  then have y: "0 < y"
    using assms by linarith
  have q: "ulp_exp x \<le> ulp_exp y"
    using x assms(2) by (rule ulp_exp_mono)
  show ?thesis
  proof (cases "ulp_exp x = ulp_exp y")
    case True
    have "x / 2 powi ulp_exp y \<le> y / 2 powi ulp_exp y"
      using assms(2) by (simp add: divide_right_mono)
    then have "round_half_even (x / 2 powi ulp_exp y) \<le> round_half_even (y / 2 powi ulp_exp y)"
      by (rule round_half_even_mono)
    then have "real_of_int (round_half_even (x / 2 powi ulp_exp y)) \<le> of_int (round_half_even (y / 2 powi ulp_exp y))"
      by (simp only: of_int_le_iff)
    then have "real_of_int (round_half_even (x / 2 powi ulp_exp y)) * 2 powi ulp_exp y
                 \<le> of_int (round_half_even (y / 2 powi ulp_exp y)) * 2 powi ulp_exp y"
      by (rule mult_right_mono) simp
    then show ?thesis
      by (simp add: round_pos_def True)
  next
    case False
    then have lt: "ulp_exp x < ulp_exp y"
      using q by simp
    then have ey: "ulp_exp y = expo y - 52" and ex: "expo x < expo y"
      by (auto simp: ulp_exp_def max_def split: if_splits)
    have "2 powi expo y \<le> y"
      using expo_bounds [OF y] by simp
    then have hi: "2 powi expo y \<le> round_pos y"
      by (rule round_pos_ge_pow) (simp add: ey)
    have "x < 2 powi (expo x + 1)"
      using expo_bounds [OF x] by simp
    moreover have "(2::real) powi (expo x + 1) \<le> 2 powi expo y"
      using ex by (intro power_int_increasing) simp_all
    ultimately have "x \<le> 2 powi expo y"
      by linarith
    then have lo: "round_pos x \<le> 2 powi expo y"
      using lt ey by (intro round_pos_le_pow) simp_all
    from lo hi show ?thesis
      by linarith
  qed
qed

lemma fl64_mono:
  assumes "x \<le> y"
  shows "fl64 x \<le> fl64 y"
proof -
  consider "y < 0" | "x < 0" "0 \<le> y" | "0 \<le> x"
    by linarith
  then show ?thesis
  proof cases
    case 1
    then have "round_pos (- y) \<le> round_pos (- x)"
      using assms by (intro round_pos_mono) simp_all
    then show ?thesis
      using 1 assms by (simp add: fl64_def)
  next
    case 2
    then have "0 \<le> round_pos (- x)" and "0 \<le> round_pos y"
      by (simp_all add: round_pos_nonneg)
    then show ?thesis
      using 2 by (simp add: fl64_def)
  next
    case 3
    then have "round_pos x \<le> round_pos y"
      using assms by (rule round_pos_mono)
    then show ?thesis
      using 3 assms by (simp add: fl64_def)
  qed
qed

lemma fl64_zero: "fl64 0 = 0"
  by (simp add: fl64_def round_pos_zero)

text \<open>
  The doubles of the constants, by evaluation.
\<close>

lemmas fl64_eval =
  fl64_def round_pos_def ulp_exp_def expo_def round_half_even_def Let_def
  expo_ge.simps expo_lt.simps

lemma fl64_one_fifth: "fl64 0.2 = one_fifth"
  by (simp add: one_fifth_def fl64_eval)

lemma fl64_neg_one_fifth: "fl64 (- one_fifth) = - one_fifth"
  by (simp add: one_fifth_def fl64_eval)

lemma fl64_pos_one_fifth: "fl64 one_fifth = one_fifth"
  by (simp add: one_fifth_def fl64_eval)

lemma one_fifth_pos: "0 < one_fifth"
  by (simp add: one_fifth_def)

lemma fl64_one: "fl64 1 = 1"
  by (simp add: fl64_eval)

text \<open>
  Claim C6, as the code has it. In double precision the face component is the clamp to
  the unit interval of \<open>((face_match - threshold) + 0.2) / 0.2\<close> with each operation
  rounded; it is exactly 1 when the score equals the threshold; and it is exactly 0 when
  the score is at most the threshold minus 0.2 in exact arithmetic on the stored values,
  0.2 being the double of that literal.
\<close>

theorem face_component_double_band:
  "face_component_double settings f
     = spec_clamp (fl64 (fl64 (fl64 (f - FACE_PASS_THRESHOLD settings) + fl64 0.2) / fl64 0.2))
         0 1 \<and>
   face_component_double settings (FACE_PASS_THRESHOLD settings) = 1 \<and>
   (f \<le> FACE_PASS_THRESHOLD settings - fl64 0.2 \<longrightarrow> face_component_double settings f = 0)"
proof -
  let ?T = "FACE_PASS_THRESHOLD settings"
  have eq: "face_component_double settings f
     = spec_clamp (fl64 (fl64 (fl64 (f - ?T) + fl64 0.2) / fl64 0.2)) 0 1"
    by (simp only: face_component_double_def clamp_max_min)
  have "fl64 (fl64 (fl64 (?T - ?T) + one_fifth) / one_fifth) = 1"
    using one_fifth_pos by (simp add: fl64_zero fl64_pos_one_fifth fl64_one)
  then have at: "face_component_double settings ?T = 1"
    unfolding face_component_double_def fl64_one_fifth by simp
  have below: "face_component_double settings f = 0" if "f \<le> ?T - fl64 0.2"
  proof -
    have "f - ?T \<le> - one_fifth"
      using that unfolding fl64_one_fifth by linarith
    then have "fl64 (f - ?T) \<le> fl64 (- one_fifth)"
      by (rule fl64_mono)
    then have "fl64 (f - ?T) + one_fifth \<le> 0"
      unfolding fl64_neg_one_fifth by linarith
    then have "fl64 (fl64 (f - ?T) + one_fifth) \<le> fl64 0"
      by (rule fl64_mono)
    then have "fl64 (fl64 (f - ?T) + one_fifth) / one_fifth \<le> 0"
      unfolding fl64_zero using one_fifth_pos by (simp add: divide_le_0_iff)
    then have "fl64 (fl64 (fl64 (f - ?T) + one_fifth) / one_fifth) \<le> fl64 0"
      by (rule fl64_mono)
    then have "fl64 (fl64 (fl64 (f - ?T) + one_fifth) / one_fifth) \<le> 0"
      unfolding fl64_zero .
    then show ?thesis
      unfolding face_component_double_def fl64_one_fifth by (simp add: min_def max_def)
  qed
  show ?thesis
    using eq at below by blast
qed

text \<open>
  The theorem under the threshold 0.95: the component is 0 at the score 0.7, which is
  below the threshold minus 0.2 in exact arithmetic, and 1 at the threshold.
\<close>

theorem face_component_double_band_witness:
  "fl64 0.7 \<le> FACE_PASS_THRESHOLD threshold_095_settings - fl64 0.2 \<and>
   face_component_double threshold_095_settings (fl64 0.7) = 0 \<and>
   face_component_double threshold_095_settings (fl64 0.95) = 1"
proof -
  have h: "fl64 0.7 \<le> FACE_PASS_THRESHOLD threshold_095_settings - fl64 0.2"
    by (simp add: threshold_095_settings_def default_settings_def fl64_eval)
  have t: "FACE_PASS_THRESHOLD threshold_095_settings = fl64 0.95"
    by (simp add: threshold_095_settings_def default_settings_def)
  from face_component_double_band [of threshold_095_settings "fl64 0.7"] h t
  show ?thesis
    by simp
qed

text \<open>
  Under the threshold 0.95 the score 0.75 leaves a rounding residue of \<open>5 / 2^54\<close>,
  about \<open>2.78e-16\<close>.
\<close>

lemma face_component_double_075:
  "face_component_double threshold_095_settings 0.75 = 5 / 2 ^ 54"
  by (simp add: face_component_double_def threshold_095_settings_def default_settings_def
        fl64_eval)

text \<open>
  Claim C6 as stated fails in double precision. The score 0.75 is a double, and the
  comparison \<open>0.75 <= 0.95 - 0.2\<close> evaluated in doubles holds, since the difference
  rounds up to 0.75; yet the component is \<open>5 / 2^54\<close> and not 0.
\<close>

theorem face_component_rounding_counterexample:
  "fl64 0.75 = 0.75 \<and>
   0.75 \<le> fl64 (FACE_PASS_THRESHOLD threshold_095_settings - fl64 0.2) \<and>
   face_component_double threshold_095_settings 0.75 = 5 / 2 ^ 54 \<and>
   face_component_double threshold_095_settings 0.75 \<noteq> 0"
proof -
  have "fl64 0.75 = 0.75"
    by (simp add: fl64_eval)
  moreover have "0.75 \<le> fl64 (FACE_PASS_THRESHOLD threshold_095_settings - fl64 0.2)"
    by (simp add: threshold_095_settings_def default_settings_def fl64_eval)
  ultimately show ?thesis
    using face_component_double_075 by simp
qed

section \<open>The screening request\<close>

lemmas more_defs = takes_first_nonempty_def first_nonempty_def topk10_settings_def
  anonymous_request_def anonymous_result_def candidate_def five_candidates_def post_five_def
  five_sorted_def

lemma topk10_run:
  "kyc_verify topk10_settings post_clean sample_request = ([sample_query], Inr clean_result)"
  by (simp add: model_defs sample_defs more_defs)

text \<open>
  Claim C7 does not hold of the code: \<open>kyc_verify\<close> passes the literal 5 as
  \<open>top_k\<close> (line 116) and never reads \<open>SANCTIONS_TOPK\<close>. With the setting at 10,
  the query that is posted still asks for 5 candidates.
\<close>

theorem topk_setting_is_ignored:
  "kyc_verify topk10_settings post_clean sample_request = ([sample_query], Inr clean_result) \<and>
   SANCTIONS_TOPK topk10_settings = 10 \<and>
   p_size (req_json sample_query) = 5"
  using topk10_run by (simp add: sample_defs more_defs)

text \<open>
Whatever the settings, every request the screening step posts has size 5.
\<close>

lemma screen_size:
  "q \<in> set (fst (screen settings post ex)) \<Longrightarrow> p_size (req_json q) = 5"
  by (auto simp: screen_def query_opensanctions_def build_request_def Let_def
           split: option.splits sum.splits prod.splits list.splits if_splits)

section \<open>Merging the extracted fields\<close>

text \<open>
  Chained \<open>or\<close> takes the first non-empty operand.
\<close>

lemma py_or_first:
  "takes_first_nonempty (py_or a b) [a, b]"
  by (simp add: takes_first_nonempty_def first_nonempty_def py_or_def)

lemma py_or_first3:
  "takes_first_nonempty (py_or (py_or a b) c) [a, b, c]"
  by (simp add: takes_first_nonempty_def first_nonempty_def py_or_def)

text \<open>
  Claim C8. For all MRZ and OCR records and all form values, the merged full name and
  date of birth take the first non-empty value among MRZ, OCR and the form value; the
  document number, nationality and expiry date take the first non-empty value among
  MRZ and OCR; the address is the OCR's; and the source is \<open>mrz\<close> exactly when the
  MRZ record has a non-empty document number, and \<open>ocr\<close> otherwise. The record in a
  returned result is this merge of the request's records.
\<close>

theorem merge_first_nonempty_wins:
  "takes_first_nonempty (full_name (merge_fields mrz ocr fname fdob))
     [full_name mrz, full_name ocr, fname] \<and>
   takes_first_nonempty (dob (merge_fields mrz ocr fname fdob)) [dob mrz, dob ocr, fdob] \<and>
   takes_first_nonempty (document_number (merge_fields mrz ocr fname fdob))
     [document_number mrz, document_number ocr] \<and>
   takes_first_nonempty (nationality (merge_fields mrz ocr fname fdob))
     [nationality mrz, nationality ocr] \<and>
   takes_first_nonempty (expiry_date (merge_fields mrz ocr fname fdob))
     [expiry_date mrz, expiry_date ocr] \<and>
   address (merge_fields mrz ocr fname fdob) = address ocr \<and>
   source (merge_fields mrz ocr fname fdob)
     = (if truthy (document_number mrz) then ''mrz'' else ''ocr'') \<and>
   (kyc_verify settings post rq = (sent, Inr r) \<longrightarrow>
      extracted r = merge_fields (mrz_fields rq) (ocr_fields rq)
                      (form_full_name rq) (form_dob rq))"
proof -
  have "extracted r = merge_fields (mrz_fields rq) (ocr_fields rq)
                      (form_full_name rq) (form_dob rq)"
    if "kyc_verify settings post rq = (sent, Inr r)"
    using kyc_verify_Inr [OF that] by (auto simp: decide_simps)
  moreover have "takes_first_nonempty (full_name (merge_fields mrz ocr fname fdob))
     [full_name mrz, full_name ocr, fname]"
    by (simp add: merge_fields_def py_or_first3)
  moreover have "takes_first_nonempty (dob (merge_fields mrz ocr fname fdob)) [dob mrz, dob ocr, fdob]"
    by (simp add: merge_fields_def py_or_first3)
  moreover have "takes_first_nonempty (document_number (merge_fields mrz ocr fname fdob))
     [document_number mrz, document_number ocr]"
    by (simp add: merge_fields_def py_or_first)
  moreover have "takes_first_nonempty (nationality (merge_fields mrz ocr fname fdob))
     [nationality mrz, nationality ocr]"
    by (simp add: merge_fields_def py_or_first)
  moreover have "takes_first_nonempty (expiry_date (merge_fields mrz ocr fname fdob))
     [expiry_date mrz, expiry_date ocr]"
    by (simp add: merge_fields_def py_or_first)
  moreover have "address (merge_fields mrz ocr fname fdob) = address ocr"
    by (simp add: merge_fields_def)
  moreover have "source (merge_fields mrz ocr fname fdob)
     = (if truthy (document_number mrz) then ''mrz'' else ''ocr'')"
    by (simp add: merge_fields_def)
  ultimately show ?thesis
    by blast
qed

text \<open>
  The theorem at \<open>sample_request\<close>, whose MRZ has the document number AB123456 (source
  \<open>mrz\<close>); a number found by the OCR alone gives the source \<open>ocr\<close>, and a name
  given in the form alone is taken.
\<close>

theorem merge_first_nonempty_wins_witness:
  "kyc_verify default_settings post_clean sample_request = ([sample_query], Inr clean_result) \<and>
   extracted clean_result
     = merge_fields (mrz_fields sample_request) (ocr_fields sample_request)
         (form_full_name sample_request) (form_dob sample_request) \<and>
   document_number (extracted clean_result) = Some ''AB123456'' \<and>
   source (extracted clean_result) = ''mrz'' \<and>
   source (merge_fields no_fields (no_fields\<lparr>document_number := Some ''12345678''\<rparr>) None None)
     = ''ocr'' \<and>
   full_name (merge_fields no_fields no_fields (Some ''Jane Roe'') None) = Some ''Jane Roe''"
proof -
  have "extracted clean_result
     = merge_fields (mrz_fields sample_request) (ocr_fields sample_request)
         (form_full_name sample_request) (form_dob sample_request)"
    using merge_first_nonempty_wins [of no_fields no_fields None None default_settings
            post_clean sample_request "[sample_query]" clean_result] sample_clean_run
    by blast
  then show ?thesis
    using sample_clean_run by (simp add: model_defs sample_defs)
qed

section \<open>The order of the sanctions matches\<close>

lemma sort_reverse_sorted:
  "sorted_wrt (\<lambda>a b. k a \<ge> k b) (sort_reverse k xs)"
proof -
  have "sorted (map k (sort_key k (rev xs)))"
    by (rule sorted_sort_key)
  then have "sorted_wrt (\<lambda>a b. k a \<le> k b) (sort_key k (rev xs))"
    by (simp add: sorted_map)
  then show ?thesis
    by (simp add: sort_reverse_def sorted_wrt_rev)
qed

lemma sort_reverse_stable:
  "filter (\<lambda>y. k y = v) (sort_reverse k xs) = filter (\<lambda>y. k y = v) xs"
proof -
  have "filter (\<lambda>y. k y = v) (sort_reverse k xs)
          = rev (filter (\<lambda>y. k y = v) (sort_key k (rev xs)))"
    by (simp add: sort_reverse_def rev_filter)
  also have "\<dots> = rev (filter (\<lambda>y. k y = v) (rev xs))"
    by (simp only: sort_key_stable)
  also have "\<dots> = filter (\<lambda>y. k y = v) xs"
    by (simp add: rev_filter)
  finally show ?thesis .
qed

lemma sort_reverse_mset: "mset (sort_reverse k xs) = mset xs"
  by (simp add: sort_reverse_def)

lemma query_opensanctions_Inr:
  assumes "query_opensanctions post nm bd api_key k = (sent, Inr ms)"
  shows "\<exists>resp data. post (build_request nm bd api_key k) = Inr resp \<and>
           json_body resp = Some data \<and>
           ms = collect_results (case results data of None \<Rightarrow> [] | Some rs \<Rightarrow> rs)"
  using assms
  by (auto simp: query_opensanctions_def Let_def split: sum.splits option.splits)

text \<open>
  Claim C9. The list built from the candidates of the service is in descending order of
  the sort key, which is the score with an absent score counted as 0; candidates with
  equal keys keep the order of the response; the list holds exactly the unified
  candidates, each with the score the service gave, an absent one staying absent. The
  list returned by \<open>query_opensanctions\<close> is this list for the candidates of the
  response.
\<close>

theorem matches_sorted_descending_stable:
  "sorted_wrt (\<lambda>a b. sort_score a \<ge> sort_score b) (collect_results rs) \<and>
   filter (\<lambda>m. sort_score m = v) (collect_results rs)
     = filter (\<lambda>m. sort_score m = v) (map unified rs) \<and>
   mset (collect_results rs) = mset (map unified rs) \<and>
   score (unified c) = res_score c \<and>
   sort_score m = (case score m of None \<Rightarrow> 0 | Some x \<Rightarrow> x) \<and>
   (query_opensanctions post nm bd api_key k = (sent, Inr ms) \<longrightarrow>
      (\<exists>resp data. post (build_request nm bd api_key k) = Inr resp \<and>
         json_body resp = Some data \<and>
         ms = collect_results (case results data of None \<Rightarrow> [] | Some cs \<Rightarrow> cs)))"
proof -
  have "sort_score m = (case score m of None \<Rightarrow> 0 | Some x \<Rightarrow> x)"
    by (simp add: sort_score_def or_zero_def split: option.splits)
  moreover have "score (unified c) = res_score c"
    by (simp add: unified_def)
  ultimately show ?thesis
    using query_opensanctions_Inr [of post nm bd api_key k sent ms]
    by (simp add: collect_results_def sort_reverse_sorted sort_reverse_stable sort_reverse_mset)
qed

lemma five_run:
  "query_opensanctions post_five ''John Doe'' None None 5 = ([sample_query], Inr five_sorted)"
  by (simp add: model_defs sample_defs more_defs)

text \<open>
  The theorem at a response of five candidates with scores 0.5, none, 0.9, 0.5 and 0:
  the order is c, a, d, b, e. The two candidates with 0.5 keep their order, and so do
  the absent score and the score 0 behind them; the absent score stays absent.
\<close>

theorem matches_sorted_descending_stable_witness:
  "query_opensanctions post_five ''John Doe'' None None 5 = ([sample_query], Inr five_sorted) \<and>
   five_sorted = collect_results five_candidates \<and>
   map match_id five_sorted = [Some ''c'', Some ''a'', Some ''d'', Some ''b'', Some ''e''] \<and>
   map score five_sorted = [Some 0.9, Some 0.5, Some 0.5, None, Some 0]"
proof -
  from matches_sorted_descending_stable
         [of five_candidates 0 listed_candidate "hd five_sorted" post_five "''John Doe''"
             None None 5 "[sample_query]" five_sorted]
       five_run
  obtain resp data where
    "post_five (build_request ''John Doe'' None None 5) = Inr resp"
    "json_body resp = Some data"
    "five_sorted = collect_results (case results data of None \<Rightarrow> [] | Some cs \<Rightarrow> cs)"
    by blast
  then have c: "five_sorted = collect_results five_candidates"
    by (auto simp: post_five_def)
  have i: "map match_id five_sorted = [Some ''c'', Some ''a'', Some ''d'', Some ''b'', Some ''e'']"
    by (simp add: five_sorted_def unified_def candidate_def)
  have s: "map score five_sorted = [Some 0.9, Some 0.5, Some 0.5, None, Some 0]"
    by (simp add: five_sorted_def unified_def candidate_def)
  show ?thesis
    using five_run c i s by blast
qed

section \<open>A request without a name\<close>

lemma anonymous_run:
  "kyc_verify default_settings post_listed anonymous_request = ([], Inr anonymous_result)"
  by (simp add: model_defs sample_defs more_defs)

lemma merge_fields_no_name:
  assumes "\<not> truthy (full_name mrz)" "\<not> truthy (full_name ocr)" "\<not> truthy fname"
  shows "\<not> truthy (full_name (merge_fields mrz ocr fname fdob))"
  using assms by (simp add: merge_fields_def py_or_def)

lemma screen_no_name:
  assumes "\<not> truthy (full_name ex)"
  shows "screen settings post ex = ([], no_screening)"
  using assms by (simp add: screen_def truthy_def split: option.splits)

text \<open>
  Claim C10. When neither the MRZ, nor the OCR, nor the form gives a non-empty full
  name, no request is posted to the sanctions service, and a returned result has an
  absent or empty name, no sanctions matches, a sanctions score of 0 and no flag, so
  that \<open>passed\<close> is the conjunction of the face gate and the liveness gate.
\<close>

theorem no_name_no_screening:
  assumes "\<not> truthy (full_name (mrz_fields rq))"
    and "\<not> truthy (full_name (ocr_fields rq))"
    and "\<not> truthy (form_full_name rq)"
  shows "fst (kyc_verify settings post rq) = [] \<and>
         (\<forall>r. snd (kyc_verify settings post rq) = Inr r \<longrightarrow>
            \<not> truthy (full_name (extracted r)) \<and>
            sanctions_matches r = [] \<and>
            sanctions_match (scores r) = 0 \<and>
            \<not> sanctions_flag (snd (screen settings post (extracted r))) \<and>
            reason r \<noteq> ''sanctions_flag'' \<and>
            (passed r \<longleftrightarrow>
               face_match (scores r) \<ge> FACE_PASS_THRESHOLD settings \<and>
               liveness (scores r) \<ge> LIVENESS_PASS_THRESHOLD settings))"
proof -
  let ?ex = "merge_fields (mrz_fields rq) (ocr_fields rq) (form_full_name rq) (form_dob rq)"
  have nn: "\<not> truthy (full_name ?ex)"
    using assms by (rule merge_fields_no_name)
  have sc: "screen settings post ?ex = ([], no_screening)"
    using nn by (rule screen_no_name)
  have sent: "fst (kyc_verify settings post rq) = []"
    using sc by (simp add: kyc_verify_def Let_def split: option.splits sum.splits)
  have res: "\<not> truthy (full_name (extracted r)) \<and>
            sanctions_matches r = [] \<and>
            sanctions_match (scores r) = 0 \<and>
            \<not> sanctions_flag (snd (screen settings post (extracted r))) \<and>
            reason r \<noteq> ''sanctions_flag'' \<and>
            (passed r \<longleftrightarrow>
               face_match (scores r) \<ge> FACE_PASS_THRESHOLD settings \<and>
               liveness (scores r) \<ge> LIVENESS_PASS_THRESHOLD settings)"
    if "snd (kyc_verify settings post rq) = Inr r" for r
  proof -
    have "kyc_verify settings post rq = (fst (kyc_verify settings post rq), Inr r)"
      using that by (metis prod.collapse)
    from kyc_verify_Inr [OF this] obtain face_score where
      r: "r = decide settings ?ex face_score (liveness_heuristics (selfie_stats rq))
                (ocr_conf_of (ocr_conf_vals rq)) no_screening"
      using sc by auto
    have "reason r \<noteq> ''sanctions_flag''"
      by (simp add: r decide_def Let_def no_screening_def)
    then show ?thesis
      using nn sc by (simp add: r decide_simps no_screening_def)
  qed
  show ?thesis
    using sent res by blast
qed

text \<open>
  The theorem at the nameless request, with a service that would list anybody: nothing
  is posted and the request passes.
\<close>

theorem no_name_no_screening_witness:
  "\<not> truthy (full_name (mrz_fields anonymous_request)) \<and>
   \<not> truthy (full_name (ocr_fields anonymous_request)) \<and>
   \<not> truthy (form_full_name anonymous_request) \<and>
   kyc_verify default_settings post_listed anonymous_request = ([], Inr anonymous_result) \<and>
   sanctions_matches anonymous_result = [] \<and>
   sanctions_match (scores anonymous_result) = 0 \<and>
   passed anonymous_result"
proof -
  have 1: "\<not> truthy (full_name (mrz_fields anonymous_request))"
    by (simp add: more_defs sample_defs truthy_def)
  have 2: "\<not> truthy (full_name (ocr_fields anonymous_request))"
    by (simp add: more_defs sample_defs truthy_def)
  have 3: "\<not> truthy (form_full_name anonymous_request)"
    by (simp add: more_defs sample_defs truthy_def)
  have 4: "face_match (scores anonymous_result) \<ge> FACE_PASS_THRESHOLD default_settings"
    by (simp add: more_defs sample_defs)
  have 5: "liveness (scores anonymous_result) \<ge> LIVENESS_PASS_THRESHOLD default_settings"
    by (simp add: more_defs sample_defs)
  from no_name_no_screening [OF 1 2 3, of default_settings post_listed] anonymous_run 4 5
  show ?thesis
    using 1 2 3 by simp
qed

section \<open>The ranges of the scores\<close>

lemma liveness_range:
  "0 \<le> liveness_heuristics st \<and> liveness_heuristics st \<le> 1"
  by (simp add: liveness_heuristics_def Let_def)

lemma image_conf_range:
  assumes "image_conf cv = Some c"
  shows "0 \<le> c \<and> c \<le> 1"
proof -
  define m where "m = max 0 (min 100 (real (sum_list cv) / real (length cv)))"
  have c: "c = m / 100"
    using assms unfolding image_conf_def m_def by (simp split: if_splits)
  have "0 \<le> m" and "m \<le> 100"
    by (simp_all add: m_def)
  then show ?thesis
    unfolding c by simp
qed

lemma py_max_mem: "xs \<noteq> [] \<Longrightarrow> py_max xs \<in> set xs"
  by (induction xs rule: py_max.induct) (auto simp: max_def)

lemma ocr_conf_range:
  "0 \<le> ocr_conf_of imgs \<and> ocr_conf_of imgs \<le> 1"
proof (cases "List.map_filter image_conf imgs = []")
  case True
  then show ?thesis
    by (simp add: ocr_conf_of_def)
next
  case False
  then have "py_max (List.map_filter image_conf imgs) \<in> set (List.map_filter image_conf imgs)"
    by (rule py_max_mem)
  then obtain cv where "image_conf cv = Some (py_max (List.map_filter image_conf imgs))"
    by (auto simp: List.map_filter_def)
  then have "0 \<le> py_max (List.map_filter image_conf imgs) \<and>
             py_max (List.map_filter image_conf imgs) \<le> 1"
    by (rule image_conf_range)
  then show ?thesis
    using False by (simp add: ocr_conf_of_def)
qed

lemma screen_score_range:
  assumes "\<forall>m\<in>set (matches (snd (screen settings post ex))).
             \<forall>x. score m = Some x \<longrightarrow> 0 \<le> x \<and> x \<le> 1"
  shows "0 \<le> sanctions_score (snd (screen settings post ex)) \<and>
         sanctions_score (snd (screen settings post ex)) \<le> 1"
  using assms
  by (auto simp: screen_def no_screening_def or_zero_def
           split: option.splits sum.splits prod.splits list.splits if_splits)

lemma opposite_run:
  "kyc_verify default_settings post_clean opposite_request
     = ([sample_query], Inr opposite_result)"
  by (simp add: model_defs sample_defs opposite_request_def opposite_result_def)

lemma screen_score_top:
  "sanctions_score (snd (screen settings post ex))
     = (case matches (snd (screen settings post ex)) of
          [] \<Rightarrow> 0
        | top_match # _ \<Rightarrow> or_zero (score top_match))"
  by (auto simp: screen_def no_screening_def
           split: option.splits sum.splits prod.splits list.splits)

text \<open>
  Claim C5, as the code has it. In every result the endpoint returns, the liveness
  score, the OCR confidence and the overall score lie between 0 and 1. The face match
  score is the cosine similarity as the face step computed it, stored without a clamp.
  The sanctions score is the score of the first, best candidate as the service gave it,
  0 when that score is absent or when there is no candidate; it lies between 0 and 1
  whenever the scores of the returned candidates do.
\<close>

theorem scores_ranges:
  assumes "kyc_verify settings post rq = (sent, Inr r)"
  shows "face_step rq = Inr (face_match (scores r)) \<and>
         0 \<le> liveness (scores r) \<and> liveness (scores r) \<le> 1 \<and>
         0 \<le> ocr_confidence (scores r) \<and> ocr_confidence (scores r) \<le> 1 \<and>
         0 \<le> overall (scores r) \<and> overall (scores r) \<le> 1 \<and>
         sanctions_match (scores r)
           = (case sanctions_matches r of
                [] \<Rightarrow> 0
              | top_match # _ \<Rightarrow> or_zero (score top_match)) \<and>
         ((\<forall>m\<in>set (sanctions_matches r). \<forall>x. score m = Some x \<longrightarrow> 0 \<le> x \<and> x \<le> 1) \<longrightarrow>
            0 \<le> sanctions_match (scores r) \<and> sanctions_match (scores r) \<le> 1)"
proof -
  let ?ex = "merge_fields (mrz_fields rq) (ocr_fields rq) (form_full_name rq) (form_dob rq)"
  let ?sc = "snd (screen settings post ?ex)"
  from kyc_verify_Inr [OF assms] obtain face_score where
    fs: "face_step rq = Inr face_score" and
    r: "r = decide settings ?ex face_score (liveness_heuristics (selfie_stats rq))
              (ocr_conf_of (ocr_conf_vals rq)) ?sc"
    by blast
  have f: "face_step rq = Inr (face_match (scores r))"
    using fs by (simp add: r decide_simps)
  have l: "0 \<le> liveness (scores r) \<and> liveness (scores r) \<le> 1"
    using liveness_range by (simp add: r decide_simps)
  have oc: "0 \<le> ocr_confidence (scores r) \<and> ocr_confidence (scores r) \<le> 1"
    using ocr_conf_range by (simp add: r decide_simps)
  have ov: "0 \<le> overall (scores r) \<and> overall (scores r) \<le> 1"
    using spec_overall_range by (simp add: r decide_overall)
  have t: "sanctions_match (scores r)
           = (case sanctions_matches r of
                [] \<Rightarrow> 0
              | top_match # _ \<Rightarrow> or_zero (score top_match))"
    using screen_score_top [of settings post ?ex] by (simp add: r decide_simps)
  have s: "0 \<le> sanctions_match (scores r) \<and> sanctions_match (scores r) \<le> 1"
    if "\<forall>m\<in>set (sanctions_matches r). \<forall>x. score m = Some x \<longrightarrow> 0 \<le> x \<and> x \<le> 1"
    using screen_score_range [of settings post ?ex] that by (simp add: r decide_simps)
  show ?thesis
    using f l oc ov t s by blast
qed

text \<open>
  The theorem at \<open>sample_request\<close> with a candidate listed at 0.95, which is the
  sanctions score of the result.
\<close>

theorem scores_ranges_witness:
  "kyc_verify default_settings post_listed sample_request = ([sample_query], Inr listed_result) \<and>
   map score (sanctions_matches listed_result) = [Some 0.95] \<and>
   sanctions_match (scores listed_result) = 0.95 \<and>
   face_step sample_request = Inr (face_match (scores listed_result)) \<and>
   0 \<le> liveness (scores listed_result) \<and> liveness (scores listed_result) \<le> 1 \<and>
   0 \<le> overall (scores listed_result) \<and> overall (scores listed_result) \<le> 1"
proof -
  have h: "\<forall>m\<in>set (sanctions_matches listed_result).
             \<forall>x. score m = Some x \<longrightarrow> 0 \<le> x \<and> x \<le> 1"
    by (simp add: listed_result_def)
  have m: "map score (sanctions_matches listed_result) = [Some 0.95]"
    by (simp add: listed_result_def)
  have v: "sanctions_match (scores listed_result) = 0.95"
    by (simp add: listed_result_def)
  from scores_ranges [OF sample_listed_run] h m v sample_listed_run
  show ?thesis
    by blast
qed

text \<open>
  Claim C5 as stated fails: two faces with opposite feature vectors have a negative
  cosine similarity, which is stored unclamped in the scores of the result.
\<close>

theorem negative_face_match_counterexample:
  "kyc_verify default_settings post_clean opposite_request
     = ([sample_query], Inr opposite_result) \<and>
   \<not> (0 \<le> face_match (scores opposite_result) \<and> face_match (scores opposite_result) \<le> 1)"
  using opposite_run by (simp add: opposite_result_def sample_face_match_def)

end
